theory Spec2Isabelle
  imports Complex_Main
begin

section \<open>Data model of the timer store\<close>

text \<open>
  The store (\<^verbatim>\<open>store/index.ts\<close>) keeps one \<^verbatim>\<open>AppState\<close>: the timer and a small
  \<^verbatim>\<open>ui\<close> record. Timestamps and durations are JavaScript numbers holding integral
  milliseconds (\<^verbatim>\<open>Date.now()\<close>, minutes times 60000); they are modelled as \<open>int\<close>, which
  agrees with double arithmetic as long as the values stay below \<open>2 ^ 53\<close>.
  \<^verbatim>\<open>Date.now()\<close> is passed to every transition as the explicit argument \<open>now\<close>.

  \<^verbatim>\<open>startTime\<close> and \<^verbatim>\<open>endTime\<close> have type \<^verbatim>\<open>number | null\<close>: \<open>None\<close> is \<^verbatim>\<open>null\<close>.
  \<^verbatim>\<open>pausedRemainingMs\<close> is optional (\<^verbatim>\<open>undefined\<close> when absent) and arrives as
  \<^verbatim>\<open>null\<close> from the channel, and the code tests for both, so it has three shapes.
\<close>

datatype jsnum = Undefined | Null | Num int

text \<open>The six raw fields: the legacy \<^verbatim>\<open>TimerState\<close> and the snapshot sent over the channel.\<close>

record raw_timer =
  durationMs :: int
  startTime :: "int option"
  endTime :: "int option"
  isRunning :: bool
  pausedRemainingMs :: jsnum
  lastUpdated :: int

text \<open>The store's \<^verbatim>\<open>TimerState\<close>: the raw fields and the two computed flags.\<close>

record timer_state = raw_timer +
  isComplete :: bool
  isPaused :: bool

record ui_state =
  isConnected :: bool
  currentTime :: int
  lastUpdateFromPubNub :: bool

record app_state =
  timer :: timer_state
  ui :: ui_state

text \<open>
  \<^verbatim>\<open>initialState\<close>: five minutes, nothing started; both \<^verbatim>\<open>Date.now()\<close> calls of the
  module initialiser are arguments.
\<close>

definition initialState :: "int \<Rightarrow> int \<Rightarrow> app_state" where
  "initialState t0 t1 =
     \<lparr> timer = \<lparr> durationMs = 5 * 60 * 1000, startTime = None, endTime = None,
                 isRunning = False, pausedRemainingMs = Undefined, lastUpdated = t0,
                 isComplete = False, isPaused = False \<rparr>,
       ui = \<lparr> isConnected = False, currentTime = t1, lastUpdateFromPubNub = False \<rparr> \<rparr>"

text \<open>
  JavaScript truthiness of a \<^verbatim>\<open>number | null\<close>: \<^verbatim>\<open>null\<close> and \<^verbatim>\<open>0\<close> are falsy.
  The source writes \<^verbatim>\<open>timer.startTime && timer.endTime\<close>.
\<close>

definition truthy :: "int option \<Rightarrow> bool" where
  "truthy v = (case v of None \<Rightarrow> False | Some n \<Rightarrow> n \<noteq> 0)"

text \<open>\<^verbatim>\<open>currentTime >= timer.endTime\<close>, reached only when \<^verbatim>\<open>endTime\<close> is truthy.\<close>

definition reached :: "int \<Rightarrow> int option \<Rightarrow> bool" where
  "reached cur e = (case e of None \<Rightarrow> False | Some n \<Rightarrow> n \<le> cur)"

section \<open>Transitions of \<^verbatim>\<open>store/actions.ts\<close>\<close>

text \<open>The argument \<^verbatim>\<open>currentTime\<close> of the helper and of the tick is written \<open>cur\<close>.\<close>

definition calculateComputedState :: "timer_state \<Rightarrow> int \<Rightarrow> timer_state" where
  "calculateComputedState t cur =
     t\<lparr> isComplete := (\<not> isRunning t \<and> truthy (startTime t) \<and> truthy (endTime t)
                        \<and> reached cur (endTime t)),
        isPaused := (\<not> isRunning t \<and> pausedRemainingMs t \<noteq> Undefined
                        \<and> pausedRemainingMs t \<noteq> Null) \<rparr>"

text \<open>
  \<^verbatim>\<open>startTimer\<close>: a timer that is not running and whose \<^verbatim>\<open>pausedRemainingMs\<close> is not
  \<^verbatim>\<open>undefined\<close> resumes from that value (a \<^verbatim>\<open>null\<close> there adds as 0).
\<close>

definition startTimer :: "int \<Rightarrow> app_state \<Rightarrow> app_state" where
  "startTimer now state =
     (let t = timer state;
          timeToRun = (if \<not> isRunning t
                       then (case pausedRemainingMs t of
                               Undefined \<Rightarrow> durationMs t | Null \<Rightarrow> 0 | Num p \<Rightarrow> p)
                       else durationMs t);
          newStartTime = now;
          newEndTime = now + timeToRun
      in state\<lparr> timer := calculateComputedState
           (t\<lparr> isRunning := True, startTime := Some newStartTime, endTime := Some newEndTime,
               pausedRemainingMs := Undefined, lastUpdated := now \<rparr>)
           (currentTime (ui state)) \<rparr>)"

definition pauseTimer :: "int \<Rightarrow> app_state \<Rightarrow> app_state" where
  "pauseTimer now state =
     (let t = timer state;
          remainingMs = (if isRunning t \<and> truthy (endTime t)
                         then (case endTime t of Some e \<Rightarrow> max 0 (e - now)
                                               | None \<Rightarrow> durationMs t)
                         else durationMs t)
      in state\<lparr> timer := calculateComputedState
           (t\<lparr> startTime := None, endTime := None, isRunning := False,
               pausedRemainingMs := Num remainingMs, lastUpdated := now \<rparr>)
           (currentTime (ui state)) \<rparr>)"

text \<open>\<^verbatim>\<open>resetTimer\<close> builds the timer afresh (the default of \<^verbatim>\<open>initialMinutes\<close> is 5).\<close>

definition resetTimer :: "int \<Rightarrow> app_state \<Rightarrow> int \<Rightarrow> app_state" where
  "resetTimer now state initialMinutes =
     state\<lparr> timer :=
       \<lparr> durationMs = initialMinutes * 60 * 1000, startTime = None, endTime = None,
         isRunning = False, pausedRemainingMs = Undefined, lastUpdated = now,
         isComplete = False, isPaused = False \<rparr> \<rparr>"

definition addTime :: "int \<Rightarrow> app_state \<Rightarrow> int \<Rightarrow> app_state" where
  "addTime now state minutes =
     (let t = timer state;
          additionalMs = minutes * 60 * 1000;
          newDurationMs = durationMs t + additionalMs;
          newTimer = t\<lparr> durationMs := newDurationMs \<rparr>;
          newTimer2 =
            (if isRunning t \<and> truthy (startTime t) \<and> truthy (endTime t)
             then newTimer\<lparr> endTime := map_option (\<lambda>e. e + additionalMs) (endTime t) \<rparr>
             else if isComplete t
             then newTimer\<lparr> startTime := None, endTime := None, isRunning := False,
                            pausedRemainingMs := Undefined \<rparr>
             else (case pausedRemainingMs t of
                     Undefined \<Rightarrow> newTimer
                   | Null \<Rightarrow> newTimer\<lparr> pausedRemainingMs := Num (0 + additionalMs) \<rparr>
                   | Num p \<Rightarrow> newTimer\<lparr> pausedRemainingMs := Num (p + additionalMs) \<rparr>))
      in state\<lparr> timer := calculateComputedState (newTimer2\<lparr> lastUpdated := now \<rparr>)
                                                  (currentTime (ui state)) \<rparr>)"

definition removeTime :: "int \<Rightarrow> app_state \<Rightarrow> int \<Rightarrow> app_state" where
  "removeTime now state minutes =
     (let t = timer state;
          reductionMs = minutes * 60 * 1000;
          newDurationMs = max (60 * 1000) (durationMs t - reductionMs);
          newTimer = t\<lparr> durationMs := newDurationMs \<rparr>;
          newTimer2 =
            (if isRunning t \<and> truthy (startTime t) \<and> truthy (endTime t)
             then newTimer\<lparr> endTime := map_option
                    (\<lambda>e. let maxReduction = e - now - 1000;
                             actualReduction = min reductionMs (max 0 maxReduction)
                         in e - actualReduction) (endTime t) \<rparr>
             else if isComplete t
             then newTimer\<lparr> startTime := None, endTime := None, isRunning := False,
                            pausedRemainingMs := Undefined \<rparr>
             else (case pausedRemainingMs t of
                     Undefined \<Rightarrow> newTimer
                   | Null \<Rightarrow> newTimer\<lparr> pausedRemainingMs :=
                               Num (max (60 * 1000) (0 - reductionMs)) \<rparr>
                   | Num p \<Rightarrow> newTimer\<lparr> pausedRemainingMs :=
                               Num (max (60 * 1000) (p - reductionMs)) \<rparr>))
      in state\<lparr> timer := calculateComputedState (newTimer2\<lparr> lastUpdated := now \<rparr>)
                                                  (currentTime (ui state)) \<rparr>)"

text \<open>
  \<^verbatim>\<open>syncTimerState\<close> copies the six raw fields of the snapshot, turning a \<^verbatim>\<open>null\<close>
  \<^verbatim>\<open>pausedRemainingMs\<close> into \<^verbatim>\<open>undefined\<close>, and recomputes the flags. It compares no
  timestamps and leaves \<^verbatim>\<open>ui\<close> as it is.
\<close>

definition syncTimerState :: "app_state \<Rightarrow> raw_timer \<Rightarrow> app_state" where
  "syncTimerState state timerState =
     state\<lparr> timer := calculateComputedState
       \<lparr> durationMs = durationMs timerState, startTime = startTime timerState,
         endTime = endTime timerState, isRunning = isRunning timerState,
         pausedRemainingMs = (if pausedRemainingMs timerState = Null then Undefined
                              else pausedRemainingMs timerState),
         lastUpdated = lastUpdated timerState,
         isComplete = False, isPaused = False \<rparr>
       (currentTime (ui state)) \<rparr>"

definition setConnected :: "app_state \<Rightarrow> bool \<Rightarrow> app_state" where
  "setConnected state c = state\<lparr> ui := (ui state)\<lparr> isConnected := c \<rparr> \<rparr>"

text \<open>
  \<^verbatim>\<open>updateCurrentTime\<close>, the scheduler's tick: a running timer whose end time is reached
  is stopped; otherwise the timer object is replaced only when a computed flag changes.
\<close>

definition updateCurrentTime :: "app_state \<Rightarrow> int \<Rightarrow> app_state" where
  "updateCurrentTime state cur =
     (let t = timer state;
          newUi = (ui state)\<lparr> currentTime := cur \<rparr>
      in if isRunning t \<and> truthy (endTime t) \<and> reached cur (endTime t)
         then state\<lparr> ui := newUi,
                     timer := calculateComputedState
                                (t\<lparr> isRunning := False, lastUpdated := cur \<rparr>)
                                cur \<rparr>
         else (let computedTimer = calculateComputedState t cur
               in if isComplete computedTimer \<noteq> isComplete t
                     \<or> isPaused computedTimer \<noteq> isPaused t
                  then state\<lparr> ui := newUi, timer := computedTimer \<rparr>
                  else state\<lparr> ui := newUi \<rparr>))"

section \<open>Display arithmetic of \<^verbatim>\<open>timer.tsx\<close>\<close>

text \<open>
  \<^verbatim>\<open>remainingMs <= 0 ? 0 : Math.max(1, Math.ceil(remainingMs / 1000))\<close>: the quotient is a
  real number, rounded up.
\<close>

definition remainingSeconds :: "int \<Rightarrow> int" where
  "remainingSeconds remainingMs =
     (if remainingMs \<le> 0 then 0 else max 1 \<lceil>real_of_int remainingMs / 1000\<rceil>)"

text \<open>
  The earliest component (before pausing was stored) rounds down instead:
  \<^verbatim>\<open>Math.floor(remainingMs / 1000)\<close>.
\<close>

definition remainingSecondsFloor :: "int \<Rightarrow> int" where
  "remainingSecondsFloor remainingMs = \<lfloor>real_of_int remainingMs / 1000\<rfloor>"

section \<open>The synchronisation bridge of \<^verbatim>\<open>store/pubnub-integration.tsx\<close>\<close>

text \<open>\<^verbatim>\<open>TIMER_CHANNEL\<close>, at its default (the environment may override it).\<close>

definition TIMER_CHANNEL :: string where
  "TIMER_CHANNEL = ''kid-timer-sync''"

record event =
  channel :: string
  message :: raw_timer

text \<open>
  The message listener. It closes over the component's \<^verbatim>\<open>timer\<close> prop (the first
  argument, \<open>None\<close> when the prop is missing) and calls the bound action
  \<^verbatim>\<open>syncTimerState\<close>, which runs on the store's state.
\<close>

definition messageListener :: "timer_state option \<Rightarrow> app_state \<Rightarrow> event \<Rightarrow> app_state" where
  "messageListener timerProp state ev =
     (if channel ev = TIMER_CHANNEL
      then (let newState = message ev
            in if (case timerProp of None \<Rightarrow> True
                                   | Some tm \<Rightarrow> lastUpdated tm < lastUpdated newState)
               then syncTimerState state newState
               else state)
      else state)"

text \<open>
  The history callback: \<^verbatim>\<open>response.messages\<close> holds at most one entry, and the first
  one is synchronised without any comparison.
\<close>

definition historyLoaded :: "app_state \<Rightarrow> raw_timer list \<Rightarrow> app_state" where
  "historyLoaded state messages =
     (case messages of [] \<Rightarrow> state | latestState # _ \<Rightarrow> syncTimerState state latestState)"

text \<open>The refs of the component: the client handle, the last published message, two flags.\<close>

record bridge =
  pubnubRef :: bool
  lastPublishedState :: "raw_timer option"
  isInitialized :: bool
  hasLoadedHistory :: bool

definition stateChanged :: "raw_timer option \<Rightarrow> timer_state \<Rightarrow> bool" where
  "stateChanged lp t =
     (case lp of
        None \<Rightarrow> True
      | Some l \<Rightarrow> durationMs l \<noteq> durationMs t \<or> startTime l \<noteq> startTime t
                  \<or> endTime l \<noteq> endTime t \<or> isRunning l \<noteq> isRunning t
                  \<or> pausedRemainingMs l \<noteq> pausedRemainingMs t)"

text \<open>The published message; \<^verbatim>\<open>timer.pausedRemainingMs ?? null\<close> sends \<^verbatim>\<open>null\<close> for an absent value.\<close>

definition stateToPublish :: "timer_state \<Rightarrow> raw_timer" where
  "stateToPublish t =
     \<lparr> durationMs = durationMs t, startTime = startTime t, endTime = endTime t,
       isRunning = isRunning t,
       pausedRemainingMs = (case pausedRemainingMs t of Num p \<Rightarrow> Num p | _ \<Rightarrow> Null),
       lastUpdated = lastUpdated t \<rparr>"

text \<open>
  One run of the publish effect: the message handed to \<^verbatim>\<open>publish\<close>, or \<open>None\<close> when
  the effect returns without publishing.
\<close>

definition publishEffect :: "bridge \<Rightarrow> app_state \<Rightarrow> raw_timer option" where
  "publishEffect b state =
     (if \<not> pubnubRef b \<or> \<not> isConnected (ui state) \<or> \<not> isInitialized b
         \<or> \<not> hasLoadedHistory b
      then None
      else if lastUpdateFromPubNub (ui state) then None
      else if stateChanged (lastPublishedState b) (timer state)
      then Some (stateToPublish (timer state))
      else None)"

text \<open>The dependency list of the publish effect: it runs again when one of these changes.\<close>

definition publishDeps ::
  "app_state \<Rightarrow> int \<times> int option \<times> int option \<times> bool \<times> jsnum \<times> bool \<times> bool" where
  "publishDeps state =
     (durationMs (timer state), startTime (timer state), endTime (timer state),
      isRunning (timer state), pausedRemainingMs (timer state),
      isConnected (ui state), lastUpdateFromPubNub (ui state))"

section \<open>Reachable states\<close>

text \<open>
  The states the store can take: the initial one, and the result of any of the seven
  transitions, with any arguments and any remote snapshot.
\<close>

inductive reachable :: "app_state \<Rightarrow> bool" where
  r_init: "reachable (initialState t0 t1)"
| r_start: "reachable s \<Longrightarrow> reachable (startTimer now s)"
| r_pause: "reachable s \<Longrightarrow> reachable (pauseTimer now s)"
| r_reset: "reachable s \<Longrightarrow> reachable (resetTimer now s initialMinutes)"
| r_add: "reachable s \<Longrightarrow> reachable (addTime now s minutes)"
| r_remove: "reachable s \<Longrightarrow> reachable (removeTime now s minutes)"
| r_sync: "reachable s \<Longrightarrow> reachable (syncTimerState s timerState)"
| r_tick: "reachable s \<Longrightarrow> reachable (updateCurrentTime s cur)"

text \<open>
  The same with the arguments the interface supplies and the snapshots such stores
  publish: whole minutes that are not negative; snapshots whose duration and paused
  remainder are not negative and that carry a paused remainder only when not running.
\<close>

definition wellformed_snapshot :: "raw_timer \<Rightarrow> bool" where
  "wellformed_snapshot x =
     (0 \<le> durationMs x
      \<and> (case pausedRemainingMs x of Num p \<Rightarrow> 0 \<le> p \<and> \<not> isRunning x | _ \<Rightarrow> True))"

inductive reachable_wf :: "app_state \<Rightarrow> bool" where
  w_init: "reachable_wf (initialState t0 t1)"
| w_start: "reachable_wf s \<Longrightarrow> reachable_wf (startTimer now s)"
| w_pause: "reachable_wf s \<Longrightarrow> reachable_wf (pauseTimer now s)"
| w_reset: "reachable_wf s \<Longrightarrow> 0 \<le> initialMinutes
            \<Longrightarrow> reachable_wf (resetTimer now s initialMinutes)"
| w_add: "reachable_wf s \<Longrightarrow> 0 \<le> minutes \<Longrightarrow> reachable_wf (addTime now s minutes)"
| w_remove: "reachable_wf s \<Longrightarrow> 0 \<le> minutes \<Longrightarrow> reachable_wf (removeTime now s minutes)"
| w_sync: "reachable_wf s \<Longrightarrow> wellformed_snapshot timerState
            \<Longrightarrow> reachable_wf (syncTimerState s timerState)"
| w_tick: "reachable_wf s \<Longrightarrow> reachable_wf (updateCurrentTime s cur)"

text \<open>
  The states reached when nothing negative is put in: minutes that are not negative,
  and snapshots whose duration and paused remainder are not negative.
\<close>

definition nonneg_snapshot :: "raw_timer \<Rightarrow> bool" where
  "nonneg_snapshot x =
     (0 \<le> durationMs x
      \<and> (case pausedRemainingMs x of Num p \<Rightarrow> 0 \<le> p | _ \<Rightarrow> True))"

inductive reachable_nonneg :: "app_state \<Rightarrow> bool" where
  n_init: "reachable_nonneg (initialState t0 t1)"
| n_start: "reachable_nonneg s \<Longrightarrow> reachable_nonneg (startTimer now s)"
| n_pause: "reachable_nonneg s \<Longrightarrow> reachable_nonneg (pauseTimer now s)"
| n_reset: "reachable_nonneg s \<Longrightarrow> 0 \<le> initialMinutes
            \<Longrightarrow> reachable_nonneg (resetTimer now s initialMinutes)"
| n_add: "reachable_nonneg s \<Longrightarrow> 0 \<le> minutes \<Longrightarrow> reachable_nonneg (addTime now s minutes)"
| n_remove: "reachable_nonneg s \<Longrightarrow> 0 \<le> minutes
            \<Longrightarrow> reachable_nonneg (removeTime now s minutes)"
| n_sync: "reachable_nonneg s \<Longrightarrow> nonneg_snapshot timerState
            \<Longrightarrow> reachable_nonneg (syncTimerState s timerState)"
| n_tick: "reachable_nonneg s \<Longrightarrow> reachable_nonneg (updateCurrentTime s cur)"

section \<open>Display seconds\<close>

lemma ceiling_ms: "\<lceil>real_of_int r / 1000\<rceil> = - ((- r) div 1000)"
proof -
  have "real_of_int r / 1000 = real_of_int r / real_of_int 1000" by simp
  then show ?thesis by (simp only: ceiling_divide_eq_div)
qed

text \<open>
  C6. The displayed seconds are 0 for a remaining time of at most 0 and
  \<open>max 1 (ceiling (remainingMs / 1000))\<close> for a positive one, which is the least number
  of whole seconds covering the remaining time; 60000, 59999, 1000, 999, 1 and 0
  milliseconds display as 60, 60, 1, 1, 1 and 0 seconds.
\<close>

theorem remainingSeconds_ceiling:
  "(r \<le> 0 \<longrightarrow> remainingSeconds r = 0)
   \<and> (0 < r \<longrightarrow> remainingSeconds r = max 1 \<lceil>real_of_int r / 1000\<rceil>
                \<and> 1000 * (remainingSeconds r - 1) < r \<and> r \<le> 1000 * remainingSeconds r)
   \<and> remainingSeconds 60000 = 60 \<and> remainingSeconds 59999 = 60
   \<and> remainingSeconds 1000 = 1 \<and> remainingSeconds 999 = 1
   \<and> remainingSeconds 1 = 1 \<and> remainingSeconds 0 = 0"
proof -
  have a: "r \<le> 0 \<longrightarrow> remainingSeconds r = 0"
    by (simp add: remainingSeconds_def)
  have b: "0 < r \<longrightarrow> remainingSeconds r = max 1 \<lceil>real_of_int r / 1000\<rceil>"
    by (simp add: remainingSeconds_def)
  have c: "0 < r \<longrightarrow> 1000 * (remainingSeconds r - 1) < r \<and> r \<le> 1000 * remainingSeconds r"
    unfolding remainingSeconds_def ceiling_ms by auto
  have d: "remainingSeconds 60000 = 60" "remainingSeconds 59999 = 60"
    "remainingSeconds 1000 = 1" "remainingSeconds 999 = 1"
    "remainingSeconds 1 = 1" "remainingSeconds 0 = 0"
    unfolding remainingSeconds_def ceiling_ms by simp_all
  from a b c d show ?thesis by blast
qed

theorem remainingSeconds_ceiling_witness:
  "(0::int) < 61001 \<and> remainingSeconds 61001 = 62 \<and> remainingSeconds (- 5) = 0"
  using remainingSeconds_ceiling [of 61001] remainingSeconds_ceiling [of "- 5"]
  by (simp add: ceiling_ms)

text \<open>The rounding-down version shows 59 and 0 where the current one shows 60 and 1.\<close>

lemma remainingSecondsFloor_values:
  "remainingSecondsFloor 59999 = 59 \<and> remainingSecondsFloor 999 = 0
   \<and> remainingSecondsFloor 60000 = 60"
  by (simp add: remainingSecondsFloor_def)

section \<open>Mutual exclusion of the modes\<close>

text \<open>
  C4. In every state reachable from the initial state by \<^verbatim>\<open>startTimer\<close>, \<^verbatim>\<open>pauseTimer\<close>,
  \<^verbatim>\<open>resetTimer\<close>, \<^verbatim>\<open>addTime\<close>, \<^verbatim>\<open>removeTime\<close>, \<^verbatim>\<open>syncTimerState\<close> and
  \<^verbatim>\<open>updateCurrentTime\<close>, \<^verbatim>\<open>isRunning\<close> and \<^verbatim>\<open>isPaused\<close> are never both true, and
  \<^verbatim>\<open>isComplete\<close> is true only when \<^verbatim>\<open>isRunning\<close> is false.
\<close>

theorem mode_exclusion:
  assumes "reachable s"
  shows "\<not> (isRunning (timer s) \<and> isPaused (timer s))
         \<and> (isComplete (timer s) \<longrightarrow> \<not> isRunning (timer s))"
  using assms
proof (induction rule: reachable.induct)
  case (r_init t0 t1)
  show ?case by (simp add: initialState_def)
next
  case (r_start s now)
  show ?case by (simp add: startTimer_def Let_def calculateComputedState_def)
next
  case (r_pause s now)
  show ?case by (simp add: pauseTimer_def Let_def calculateComputedState_def)
next
  case (r_reset s now initialMinutes)
  show ?case by (simp add: resetTimer_def)
next
  case (r_add s now minutes)
  show ?case
    by (simp add: addTime_def Let_def calculateComputedState_def split: jsnum.splits)
next
  case (r_remove s now minutes)
  show ?case
    by (simp add: removeTime_def Let_def calculateComputedState_def split: jsnum.splits)
next
  case (r_sync s timerState)
  show ?case by (simp add: syncTimerState_def calculateComputedState_def)
next
  case (r_tick s cur)
  then show ?case
    by (simp add: updateCurrentTime_def Let_def calculateComputedState_def)
qed

theorem mode_exclusion_witness:
  "reachable (pauseTimer 1060000 (startTimer 1000000 (initialState 999000 999000)))
   \<and> isPaused (timer (pauseTimer 1060000 (startTimer 1000000 (initialState 999000 999000))))
   \<and> \<not> isRunning (timer (pauseTimer 1060000 (startTimer 1000000 (initialState 999000 999000))))"
proof -
  have r: "reachable (pauseTimer 1060000 (startTimer 1000000 (initialState 999000 999000)))"
    by (intro r_pause r_start r_init)
  from mode_exclusion [OF r] r show ?thesis
    by (simp add: pauseTimer_def startTimer_def initialState_def calculateComputedState_def
        Let_def truthy_def reached_def)
qed

section \<open>The tick that changes nothing\<close>

text \<open>
  C10. When the timer is not running past its end time and the flags recomputed at the
  tick's time equal the stored ones, \<^verbatim>\<open>updateCurrentTime\<close> returns the very same timer
  (every field, \<^verbatim>\<open>lastUpdated\<close> included); only \<^verbatim>\<open>ui.currentTime\<close> changes.
\<close>

theorem tick_unchanged:
  assumes "\<not> (isRunning (timer s) \<and> reached cur (endTime (timer s)))"
    and "isComplete (calculateComputedState (timer s) cur) = isComplete (timer s)"
    and "isPaused (calculateComputedState (timer s) cur) = isPaused (timer s)"
  shows "timer (updateCurrentTime s cur) = timer s
         \<and> updateCurrentTime s cur = s\<lparr> ui := (ui s)\<lparr> currentTime := cur \<rparr> \<rparr>"
  using assms by (auto simp add: updateCurrentTime_def Let_def)

theorem tick_unchanged_witness:
  "\<not> (isRunning (timer (startTimer 1000000 (initialState 999000 999000)))
       \<and> reached 1001000 (endTime (timer (startTimer 1000000 (initialState 999000 999000)))))
   \<and> lastUpdated (timer (updateCurrentTime
         (startTimer 1000000 (initialState 999000 999000)) 1001000)) = 1000000
   \<and> endTime (timer (updateCurrentTime
         (startTimer 1000000 (initialState 999000 999000)) 1001000)) = Some 1300000
   \<and> currentTime (ui (updateCurrentTime
         (startTimer 1000000 (initialState 999000 999000)) 1001000)) = 1001000"
  using tick_unchanged [of "startTimer 1000000 (initialState 999000 999000)" 1001000]
  by (simp add: startTimer_def initialState_def calculateComputedState_def
      Let_def truthy_def reached_def)

section \<open>Pause and resume\<close>

text \<open>
  C9. A running timer (with its end time set) that is paused at \<open>t1\<close> and started again
  at \<open>t2\<close> resumes from the stored remainder, not from the full duration: the new end
  time is \<open>t2\<close> plus the time that remained at the pause, \<open>max 0 (endTime - t1)\<close>, and
  \<^verbatim>\<open>pausedRemainingMs\<close> is cleared.
\<close>

theorem pause_resume:
  assumes "isRunning (timer s)" and "endTime (timer s) = Some e" and "e \<noteq> 0"
  shows "pausedRemainingMs (timer (pauseTimer t1 s)) = Num (max 0 (e - t1))
         \<and> endTime (timer (startTimer t2 (pauseTimer t1 s))) = Some (t2 + max 0 (e - t1))
         \<and> startTime (timer (startTimer t2 (pauseTimer t1 s))) = Some t2
         \<and> isRunning (timer (startTimer t2 (pauseTimer t1 s)))
         \<and> pausedRemainingMs (timer (startTimer t2 (pauseTimer t1 s))) = Undefined
         \<and> durationMs (timer (startTimer t2 (pauseTimer t1 s))) = durationMs (timer s)"
  using assms
  by (simp add: startTimer_def pauseTimer_def calculateComputedState_def Let_def truthy_def)

theorem pause_resume_witness:
  "isRunning (timer (startTimer 1000000 (initialState 999000 999000)))
   \<and> endTime (timer (startTimer 1000000 (initialState 999000 999000))) = Some 1300000
   \<and> endTime (timer (startTimer 1500000 (pauseTimer 1060000
         (startTimer 1000000 (initialState 999000 999000))))) = Some 1740000
   \<and> pausedRemainingMs (timer (startTimer 1500000 (pauseTimer 1060000
         (startTimer 1000000 (initialState 999000 999000))))) = Undefined"
proof -
  have a: "isRunning (timer (startTimer 1000000 (initialState 999000 999000)))"
    and b: "endTime (timer (startTimer 1000000 (initialState 999000 999000))) = Some 1300000"
    by (simp_all add: startTimer_def initialState_def calculateComputedState_def Let_def)
  have c: "(1300000::int) \<noteq> 0" by simp
  from pause_resume [OF a b c, of 1060000 1500000] a b show ?thesis by simp
qed

section \<open>Removing time\<close>

text \<open>
  C7. \<^verbatim>\<open>removeTime\<close> never leaves \<^verbatim>\<open>durationMs\<close> below 60000. For a positive number of
  minutes and a running timer (so one not flagged complete) whose end time is at least
  one second after \<open>now\<close>, the new end time is still at least one second after \<open>now\<close>, and
  not later than the old one.
\<close>

theorem removeTime_floors:
  "60000 \<le> durationMs (timer (removeTime now s minutes))
   \<and> (0 < minutes \<and> isRunning (timer s) \<and> \<not> isComplete (timer s)
        \<and> endTime (timer s) = Some e \<and> now + 1000 \<le> e
      \<longrightarrow> (\<exists>e'. endTime (timer (removeTime now s minutes)) = Some e'
                \<and> now + 1000 \<le> e' \<and> e' \<le> e))"
  by (auto simp add: removeTime_def calculateComputedState_def Let_def split: jsnum.splits)

theorem removeTime_floors_witness:
  "(0::int) < 5
   \<and> isRunning (timer (startTimer 1000000 (initialState 999000 999000)))
   \<and> \<not> isComplete (timer (startTimer 1000000 (initialState 999000 999000)))
   \<and> endTime (timer (startTimer 1000000 (initialState 999000 999000))) = Some 1300000
   \<and> (1297000::int) + 1000 \<le> 1300000
   \<and> endTime (timer (removeTime 1297000
         (startTimer 1000000 (initialState 999000 999000)) 5)) = Some 1298000
   \<and> durationMs (timer (removeTime 1297000
         (startTimer 1000000 (initialState 999000 999000)) 5)) = 60000"
  using removeTime_floors [of 1297000 "startTimer 1000000 (initialState 999000 999000)" 5 1300000]
  by (simp add: removeTime_def startTimer_def initialState_def calculateComputedState_def
      Let_def truthy_def reached_def)

section \<open>Remote snapshots\<close>

lemma sync_keeps_ui: "ui (syncTimerState s x) = ui s"
  by (simp add: syncTimerState_def)

lemma sync_idem: "syncTimerState (syncTimerState s x) x = syncTimerState s x"
  by (simp add: syncTimerState_def)

text \<open>
  C1, as the claim states it, fails. An idle client whose clock reads 1000000 receives
  a newer snapshot that is running with an end time of 995000. The listener accepts it,
  and the resulting state is running and not complete: \<^verbatim>\<open>syncTimerState\<close> copies
  \<^verbatim>\<open>isRunning\<close> as it arrives.
\<close>

theorem sync_running_past_end_counterexample:
  "lastUpdated (timer (initialState 999000 1000000)) < lastUpdated
         \<lparr> durationMs = 300000, startTime = Some 695000, endTime = Some 995000,
           isRunning = True, pausedRemainingMs = Null, lastUpdated = 1000001 \<rparr>
   \<and> (995000::int) \<le> currentTime (ui (initialState 999000 1000000))
   \<and> isRunning (timer (messageListener (Some (timer (initialState 999000 1000000))) (initialState 999000 1000000)
         \<lparr> channel = TIMER_CHANNEL, message =
         \<lparr> durationMs = 300000, startTime = Some 695000, endTime = Some 995000,
           isRunning = True, pausedRemainingMs = Null, lastUpdated = 1000001 \<rparr> \<rparr>))
   \<and> \<not> isComplete (timer (messageListener (Some (timer (initialState 999000 1000000))) (initialState 999000 1000000)
         \<lparr> channel = TIMER_CHANNEL, message =
         \<lparr> durationMs = 300000, startTime = Some 695000, endTime = Some 995000,
           isRunning = True, pausedRemainingMs = Null, lastUpdated = 1000001 \<rparr> \<rparr>))"
  by (simp add: messageListener_def syncTimerState_def initialState_def
      calculateComputedState_def Let_def)

text \<open>
  C1, amended. A snapshot that is running with an end time (set, not 0) at or before
  \<open>cur\<close> is stored as running and not complete by \<^verbatim>\<open>syncTimerState\<close>; the scheduler's
  tick at \<open>cur\<close> that follows stops it, keeps both timestamps, and the state is complete
  exactly when the snapshot's start time is set.
\<close>

theorem sync_then_tick_expires:
  assumes "isRunning snap" and "endTime snap = Some e" and "e \<noteq> 0" and "e \<le> cur"
  shows "isRunning (timer (syncTimerState s snap))
         \<and> \<not> isComplete (timer (syncTimerState s snap))
         \<and> \<not> isRunning (timer (updateCurrentTime (syncTimerState s snap) cur))
         \<and> endTime (timer (updateCurrentTime (syncTimerState s snap) cur)) = Some e
         \<and> startTime (timer (updateCurrentTime (syncTimerState s snap) cur)) = startTime snap
         \<and> isComplete (timer (updateCurrentTime (syncTimerState s snap) cur))
             = truthy (startTime snap)"
  using assms
  by (simp add: syncTimerState_def updateCurrentTime_def calculateComputedState_def
      Let_def truthy_def reached_def)

theorem sync_then_tick_expires_witness:
  "isRunning \<lparr> durationMs = 300000, startTime = Some 695000, endTime = Some 995000,
           isRunning = True, pausedRemainingMs = Null, lastUpdated = 1000001 \<rparr>
   \<and> endTime \<lparr> durationMs = 300000, startTime = Some 695000, endTime = Some 995000,
           isRunning = True, pausedRemainingMs = Null, lastUpdated = 1000001 \<rparr> = Some 995000
   \<and> (995000::int) \<noteq> 0 \<and> (995000::int) \<le> 1000000
   \<and> \<not> isRunning (timer (updateCurrentTime (syncTimerState (initialState 999000 1000000)
         \<lparr> durationMs = 300000, startTime = Some 695000, endTime = Some 995000,
           isRunning = True, pausedRemainingMs = Null, lastUpdated = 1000001 \<rparr>) 1000000))
   \<and> isComplete (timer (updateCurrentTime (syncTimerState (initialState 999000 1000000)
         \<lparr> durationMs = 300000, startTime = Some 695000, endTime = Some 995000,
           isRunning = True, pausedRemainingMs = Null, lastUpdated = 1000001 \<rparr>) 1000000))"
  using sync_then_tick_expires [of
         "\<lparr> durationMs = 300000, startTime = Some 695000, endTime = Some 995000,
           isRunning = True, pausedRemainingMs = Null, lastUpdated = 1000001 \<rparr>" 995000 1000000 "initialState 999000 1000000"]
  by (simp add: truthy_def)

text \<open>
  C2, as the claim states it, fails. A snapshot stamped 1000000 is accepted by the
  listener; the user pauses at 1060000, so the store's stamp is now the greater one; the
  history callback then delivers the same snapshot. It is applied again, and the timer
  runs once more.
\<close>

theorem history_reapplies_counterexample:
  "lastUpdated \<lparr> durationMs = 600000, startTime = Some 1000000, endTime = Some 1600000,
           isRunning = True, pausedRemainingMs = Null, lastUpdated = 1000000 \<rparr>
     \<le> lastUpdated (timer (pauseTimer 1060000 (messageListener (Some (timer (initialState 999000 999000))) (initialState 999000 999000)
         \<lparr> channel = TIMER_CHANNEL, message =
         \<lparr> durationMs = 600000, startTime = Some 1000000, endTime = Some 1600000,
           isRunning = True, pausedRemainingMs = Null, lastUpdated = 1000000 \<rparr> \<rparr>)))
   \<and> \<not> isRunning (timer (pauseTimer 1060000 (messageListener (Some (timer (initialState 999000 999000))) (initialState 999000 999000)
         \<lparr> channel = TIMER_CHANNEL, message =
         \<lparr> durationMs = 600000, startTime = Some 1000000, endTime = Some 1600000,
           isRunning = True, pausedRemainingMs = Null, lastUpdated = 1000000 \<rparr> \<rparr>)))
   \<and> isRunning (timer (historyLoaded
        (pauseTimer 1060000 (messageListener (Some (timer (initialState 999000 999000))) (initialState 999000 999000)
         \<lparr> channel = TIMER_CHANNEL, message =
         \<lparr> durationMs = 600000, startTime = Some 1000000, endTime = Some 1600000,
           isRunning = True, pausedRemainingMs = Null, lastUpdated = 1000000 \<rparr> \<rparr>))
        [\<lparr> durationMs = 600000, startTime = Some 1000000, endTime = Some 1600000,
           isRunning = True, pausedRemainingMs = Null, lastUpdated = 1000000 \<rparr>]))
   \<and> lastUpdated (timer (historyLoaded
        (pauseTimer 1060000 (messageListener (Some (timer (initialState 999000 999000))) (initialState 999000 999000)
         \<lparr> channel = TIMER_CHANNEL, message =
         \<lparr> durationMs = 600000, startTime = Some 1000000, endTime = Some 1600000,
           isRunning = True, pausedRemainingMs = Null, lastUpdated = 1000000 \<rparr> \<rparr>))
        [\<lparr> durationMs = 600000, startTime = Some 1000000, endTime = Some 1600000,
           isRunning = True, pausedRemainingMs = Null, lastUpdated = 1000000 \<rparr>])) = 1000000"
  by (simp add: historyLoaded_def pauseTimer_def messageListener_def syncTimerState_def
      initialState_def calculateComputedState_def Let_def truthy_def TIMER_CHANNEL_def)

text \<open>
  C2, amended. A snapshot returned by history retrieval is applied without any
  comparison of timestamps: whatever the store's \<^verbatim>\<open>lastUpdated\<close>, the six raw fields of
  the timer become those of the snapshot (a \<^verbatim>\<open>null\<close> \<^verbatim>\<open>pausedRemainingMs\<close> becoming
  absent) and \<^verbatim>\<open>ui\<close> stays as it is; an empty history changes nothing. Applying the
  same snapshot once more directly afterwards, by the history callback or by the action
  \<^verbatim>\<open>syncTimerState\<close> itself, leaves the state unchanged.
\<close>

theorem history_unconditional:
  "historyLoaded s [] = s
   \<and> durationMs (timer (historyLoaded s (x # ms))) = durationMs x
   \<and> startTime (timer (historyLoaded s (x # ms))) = startTime x
   \<and> endTime (timer (historyLoaded s (x # ms))) = endTime x
   \<and> isRunning (timer (historyLoaded s (x # ms))) = isRunning x
   \<and> pausedRemainingMs (timer (historyLoaded s (x # ms)))
       = (if pausedRemainingMs x = Null then Undefined else pausedRemainingMs x)
   \<and> lastUpdated (timer (historyLoaded s (x # ms))) = lastUpdated x
   \<and> ui (historyLoaded s (x # ms)) = ui s
   \<and> historyLoaded (historyLoaded s (x # ms)) (x # ms) = historyLoaded s (x # ms)
   \<and> syncTimerState (syncTimerState s x) x = syncTimerState s x"
proof -
  have h: "historyLoaded s (x # ms) = syncTimerState s x" for s
    by (simp add: historyLoaded_def)
  have e: "historyLoaded s [] = s"
    by (simp add: historyLoaded_def)
  have f: "durationMs (timer (syncTimerState s x)) = durationMs x"
    "startTime (timer (syncTimerState s x)) = startTime x"
    "endTime (timer (syncTimerState s x)) = endTime x"
    "isRunning (timer (syncTimerState s x)) = isRunning x"
    "pausedRemainingMs (timer (syncTimerState s x))
       = (if pausedRemainingMs x = Null then Undefined else pausedRemainingMs x)"
    "lastUpdated (timer (syncTimerState s x)) = lastUpdated x"
    by (simp_all add: syncTimerState_def calculateComputedState_def)
  from e f show ?thesis
    by (simp only: h sync_keeps_ui sync_idem simp_thms)
qed

theorem history_unconditional_witness:
  "lastUpdated \<lparr> durationMs = 600000, startTime = Some 1000000, endTime = Some 1600000,
           isRunning = True, pausedRemainingMs = Null, lastUpdated = 1000000 \<rparr>
     < lastUpdated (timer (pauseTimer 1060000 (messageListener (Some (timer (initialState 999000 999000))) (initialState 999000 999000)
         \<lparr> channel = TIMER_CHANNEL, message =
         \<lparr> durationMs = 600000, startTime = Some 1000000, endTime = Some 1600000,
           isRunning = True, pausedRemainingMs = Null, lastUpdated = 1000000 \<rparr> \<rparr>)))
   \<and> lastUpdated (timer (historyLoaded (pauseTimer 1060000 (messageListener (Some (timer (initialState 999000 999000))) (initialState 999000 999000)
         \<lparr> channel = TIMER_CHANNEL, message =
         \<lparr> durationMs = 600000, startTime = Some 1000000, endTime = Some 1600000,
           isRunning = True, pausedRemainingMs = Null, lastUpdated = 1000000 \<rparr> \<rparr>))
        [\<lparr> durationMs = 600000, startTime = Some 1000000, endTime = Some 1600000,
           isRunning = True, pausedRemainingMs = Null, lastUpdated = 1000000 \<rparr>])) = 1000000
   \<and> endTime (timer (historyLoaded (pauseTimer 1060000 (messageListener (Some (timer (initialState 999000 999000))) (initialState 999000 999000)
         \<lparr> channel = TIMER_CHANNEL, message =
         \<lparr> durationMs = 600000, startTime = Some 1000000, endTime = Some 1600000,
           isRunning = True, pausedRemainingMs = Null, lastUpdated = 1000000 \<rparr> \<rparr>))
        [\<lparr> durationMs = 600000, startTime = Some 1000000, endTime = Some 1600000,
           isRunning = True, pausedRemainingMs = Null, lastUpdated = 1000000 \<rparr>])) = Some 1600000
   \<and> pausedRemainingMs (timer (historyLoaded (pauseTimer 1060000 (messageListener (Some (timer (initialState 999000 999000))) (initialState 999000 999000)
         \<lparr> channel = TIMER_CHANNEL, message =
         \<lparr> durationMs = 600000, startTime = Some 1000000, endTime = Some 1600000,
           isRunning = True, pausedRemainingMs = Null, lastUpdated = 1000000 \<rparr> \<rparr>))
        [\<lparr> durationMs = 600000, startTime = Some 1000000, endTime = Some 1600000,
           isRunning = True, pausedRemainingMs = Null, lastUpdated = 1000000 \<rparr>])) = Undefined"
  using history_unconditional [of "pauseTimer 1060000 (messageListener (Some (timer (initialState 999000 999000))) (initialState 999000 999000)
         \<lparr> channel = TIMER_CHANNEL, message =
         \<lparr> durationMs = 600000, startTime = Some 1000000, endTime = Some 1600000,
           isRunning = True, pausedRemainingMs = Null, lastUpdated = 1000000 \<rparr> \<rparr>)"
        "\<lparr> durationMs = 600000, startTime = Some 1000000, endTime = Some 1600000,
           isRunning = True, pausedRemainingMs = Null, lastUpdated = 1000000 \<rparr>" "[]"]
  by (simp add: pauseTimer_def messageListener_def syncTimerState_def
      initialState_def calculateComputedState_def Let_def truthy_def)

text \<open>
  The message listener is created once, by an effect that depends on the two bound
  actions only, so the \<^verbatim>\<open>timer\<close> it compares with is the one of the first render.
  Against its comment (\<^verbatim>\<open>Only update if this is a newer state\<close>) it applies a message
  stamped 1000000 to a store that a local pause has stamped 1060000, and the timer runs
  again.
\<close>

lemma stale_listener_reapplies:
  "lastUpdated \<lparr> durationMs = 600000, startTime = Some 1000000, endTime = Some 1600000,
           isRunning = True, pausedRemainingMs = Null, lastUpdated = 1000000 \<rparr>
     < lastUpdated (timer (pauseTimer 1060000 (messageListener (Some (timer (initialState 999000 999000))) (initialState 999000 999000)
         \<lparr> channel = TIMER_CHANNEL, message =
         \<lparr> durationMs = 600000, startTime = Some 1000000, endTime = Some 1600000,
           isRunning = True, pausedRemainingMs = Null, lastUpdated = 1000000 \<rparr> \<rparr>)))
   \<and> \<not> isRunning (timer (pauseTimer 1060000 (messageListener (Some (timer (initialState 999000 999000))) (initialState 999000 999000)
         \<lparr> channel = TIMER_CHANNEL, message =
         \<lparr> durationMs = 600000, startTime = Some 1000000, endTime = Some 1600000,
           isRunning = True, pausedRemainingMs = Null, lastUpdated = 1000000 \<rparr> \<rparr>)))
   \<and> isRunning (timer (messageListener (Some (timer (initialState 999000 999000)))
        (pauseTimer 1060000 (messageListener (Some (timer (initialState 999000 999000))) (initialState 999000 999000)
         \<lparr> channel = TIMER_CHANNEL, message =
         \<lparr> durationMs = 600000, startTime = Some 1000000, endTime = Some 1600000,
           isRunning = True, pausedRemainingMs = Null, lastUpdated = 1000000 \<rparr> \<rparr>))
        \<lparr> channel = TIMER_CHANNEL, message =
         \<lparr> durationMs = 600000, startTime = Some 1000000, endTime = Some 1600000,
           isRunning = True, pausedRemainingMs = Null, lastUpdated = 1000000 \<rparr> \<rparr>))"
  by (simp add: pauseTimer_def messageListener_def syncTimerState_def
      initialState_def calculateComputedState_def Let_def truthy_def)

section \<open>The echo of a remote snapshot\<close>

text \<open>
  What the publish effect sends after a synchronisation is the snapshot itself, and the
  comparison with the last published message cannot hold it back for a timer that is
  not paused: the published \<^verbatim>\<open>pausedRemainingMs\<close> is \<^verbatim>\<open>null\<close>, the stored one
  \<^verbatim>\<open>undefined\<close>.
\<close>

lemma sync_publishes_back:
  "pausedRemainingMs x \<noteq> Undefined \<Longrightarrow> stateToPublish (timer (syncTimerState s x)) = x"
  by (cases "pausedRemainingMs x")
     (simp_all add: syncTimerState_def stateToPublish_def calculateComputedState_def)

lemma stateChanged_unpaused:
  "pausedRemainingMs t = Undefined \<Longrightarrow> stateChanged (Some (stateToPublish t')) t"
  by (simp add: stateChanged_def stateToPublish_def split: jsnum.splits)

text \<open>
  C3, evaluated on the code. A connected client that has loaded history and published
  its initial state receives a newer snapshot. \<^verbatim>\<open>syncTimerState\<close> leaves
  \<^verbatim>\<open>ui.lastUpdateFromPubNub\<close> false, the dependencies of the publish effect change, and
  the effect publishes that same snapshot, \<^verbatim>\<open>lastUpdated\<close> included, back to the channel.
\<close>

theorem echo_published:
  "publishDeps (messageListener (Some (timer (setConnected (initialState 999000 999000) True))) (setConnected (initialState 999000 999000) True)
         \<lparr> channel = TIMER_CHANNEL, message =
         \<lparr> durationMs = 600000, startTime = Some 1000000, endTime = Some 1600000,
           isRunning = True, pausedRemainingMs = Null, lastUpdated = 1000000 \<rparr> \<rparr>)
     \<noteq> publishDeps (setConnected (initialState 999000 999000) True)
   \<and> \<not> lastUpdateFromPubNub (ui (messageListener (Some (timer (setConnected (initialState 999000 999000) True))) (setConnected (initialState 999000 999000) True)
         \<lparr> channel = TIMER_CHANNEL, message =
         \<lparr> durationMs = 600000, startTime = Some 1000000, endTime = Some 1600000,
           isRunning = True, pausedRemainingMs = Null, lastUpdated = 1000000 \<rparr> \<rparr>))
   \<and> publishEffect
       \<lparr> pubnubRef = True,
         lastPublishedState = Some (stateToPublish (timer (setConnected (initialState 999000 999000) True))),
         isInitialized = True, hasLoadedHistory = True \<rparr>
       (messageListener (Some (timer (setConnected (initialState 999000 999000) True))) (setConnected (initialState 999000 999000) True)
         \<lparr> channel = TIMER_CHANNEL, message =
         \<lparr> durationMs = 600000, startTime = Some 1000000, endTime = Some 1600000,
           isRunning = True, pausedRemainingMs = Null, lastUpdated = 1000000 \<rparr> \<rparr>)
     = Some \<lparr> durationMs = 600000, startTime = Some 1000000, endTime = Some 1600000,
           isRunning = True, pausedRemainingMs = Null, lastUpdated = 1000000 \<rparr>"
  by (simp add: publishEffect_def publishDeps_def messageListener_def syncTimerState_def
      setConnected_def stateChanged_def stateToPublish_def initialState_def
      calculateComputedState_def Let_def)

theorem echo_published_witness:
  "isConnected (ui (messageListener (Some (timer (setConnected (initialState 999000 999000) True))) (setConnected (initialState 999000 999000) True)
         \<lparr> channel = TIMER_CHANNEL, message =
         \<lparr> durationMs = 600000, startTime = Some 1000000, endTime = Some 1600000,
           isRunning = True, pausedRemainingMs = Null, lastUpdated = 1000000 \<rparr> \<rparr>))
   \<and> \<not> lastUpdateFromPubNub (ui (messageListener (Some (timer (setConnected (initialState 999000 999000) True))) (setConnected (initialState 999000 999000) True)
         \<lparr> channel = TIMER_CHANNEL, message =
         \<lparr> durationMs = 600000, startTime = Some 1000000, endTime = Some 1600000,
           isRunning = True, pausedRemainingMs = Null, lastUpdated = 1000000 \<rparr> \<rparr>))
   \<and> stateChanged (Some (stateToPublish (timer (setConnected (initialState 999000 999000) True))))
         (timer (messageListener (Some (timer (setConnected (initialState 999000 999000) True))) (setConnected (initialState 999000 999000) True)
         \<lparr> channel = TIMER_CHANNEL, message =
         \<lparr> durationMs = 600000, startTime = Some 1000000, endTime = Some 1600000,
           isRunning = True, pausedRemainingMs = Null, lastUpdated = 1000000 \<rparr> \<rparr>))
   \<and> publishEffect
       \<lparr> pubnubRef = True,
         lastPublishedState = Some (stateToPublish (timer (setConnected (initialState 999000 999000) True))),
         isInitialized = True, hasLoadedHistory = True \<rparr>
       (messageListener (Some (timer (setConnected (initialState 999000 999000) True))) (setConnected (initialState 999000 999000) True)
         \<lparr> channel = TIMER_CHANNEL, message =
         \<lparr> durationMs = 600000, startTime = Some 1000000, endTime = Some 1600000,
           isRunning = True, pausedRemainingMs = Null, lastUpdated = 1000000 \<rparr> \<rparr>)
     \<noteq> None"
  using echo_published
  by (simp add: messageListener_def syncTimerState_def setConnected_def stateChanged_def
      stateToPublish_def initialState_def calculateComputedState_def Let_def)

section \<open>Well-formed states\<close>

lemma wf_invariant:
  assumes "reachable_wf s"
  shows "0 \<le> durationMs (timer s)
         \<and> (case pausedRemainingMs (timer s) of
               Undefined \<Rightarrow> True | Null \<Rightarrow> False
             | Num p \<Rightarrow> 0 \<le> p \<and> \<not> isRunning (timer s))
         \<and> (isComplete (timer s) \<longrightarrow> \<not> isRunning (timer s))"
  using assms
proof (induction rule: reachable_wf.induct)
  case (w_init t0 t1)
  show ?case by (simp add: initialState_def)
next
  case (w_start s now)
  then show ?case by (simp add: startTimer_def Let_def calculateComputedState_def)
next
  case (w_pause s now)
  then show ?case
    by (simp add: pauseTimer_def Let_def calculateComputedState_def split: option.splits)
next
  case (w_reset s initialMinutes now)
  then show ?case by (simp add: resetTimer_def)
next
  case (w_add s minutes now)
  then show ?case
    by (auto simp add: addTime_def Let_def calculateComputedState_def split: jsnum.splits)
next
  case (w_remove s minutes now)
  then show ?case
    by (auto simp add: removeTime_def Let_def calculateComputedState_def le_max_iff_disj
        split: jsnum.splits)
next
  case (w_sync s timerState)
  then show ?case
    by (simp add: syncTimerState_def calculateComputedState_def wellformed_snapshot_def
        split: jsnum.splits)
next
  case (w_tick s cur)
  then show ?case
    by (auto simp add: updateCurrentTime_def Let_def calculateComputedState_def
        split: jsnum.splits)
qed

text \<open>What a store in such a state publishes is again a well-formed snapshot.\<close>

lemma published_wellformed:
  assumes "reachable_wf s"
  shows "wellformed_snapshot (stateToPublish (timer s))"
  using wf_invariant [OF assms]
  by (simp add: wellformed_snapshot_def stateToPublish_def split: jsnum.splits)

section \<open>Expiry at the tick\<close>

text \<open>
  C5, as the claim states it, fails in its last part. A running state that carries a
  \<^verbatim>\<open>pausedRemainingMs\<close> of 5000 (taken from the channel) reaches its end time; the
  tick stops it and keeps the timestamps, so it is complete, but \<^verbatim>\<open>pausedRemainingMs\<close>
  is still 5000, and the state is flagged paused as well.
\<close>

theorem expire_keeps_paused_counterexample:
  "isRunning (timer (syncTimerState (initialState 999000 999000)
         \<lparr> durationMs = 300000, startTime = Some 1000000, endTime = Some 1300000,
           isRunning = True, pausedRemainingMs = Num 5000, lastUpdated = 1000000 \<rparr>))
   \<and> reached 1300000 (endTime (timer (syncTimerState (initialState 999000 999000)
         \<lparr> durationMs = 300000, startTime = Some 1000000, endTime = Some 1300000,
           isRunning = True, pausedRemainingMs = Num 5000, lastUpdated = 1000000 \<rparr>)))
   \<and> \<not> isRunning (timer (updateCurrentTime (syncTimerState (initialState 999000 999000)
         \<lparr> durationMs = 300000, startTime = Some 1000000, endTime = Some 1300000,
           isRunning = True, pausedRemainingMs = Num 5000, lastUpdated = 1000000 \<rparr>) 1300000))
   \<and> pausedRemainingMs (timer (updateCurrentTime (syncTimerState (initialState 999000 999000)
         \<lparr> durationMs = 300000, startTime = Some 1000000, endTime = Some 1300000,
           isRunning = True, pausedRemainingMs = Num 5000, lastUpdated = 1000000 \<rparr>) 1300000)) = Num 5000
   \<and> isComplete (timer (updateCurrentTime (syncTimerState (initialState 999000 999000)
         \<lparr> durationMs = 300000, startTime = Some 1000000, endTime = Some 1300000,
           isRunning = True, pausedRemainingMs = Num 5000, lastUpdated = 1000000 \<rparr>) 1300000))
   \<and> isPaused (timer (updateCurrentTime (syncTimerState (initialState 999000 999000)
         \<lparr> durationMs = 300000, startTime = Some 1000000, endTime = Some 1300000,
           isRunning = True, pausedRemainingMs = Num 5000, lastUpdated = 1000000 \<rparr>) 1300000))"
  by (simp add: updateCurrentTime_def syncTimerState_def initialState_def
      calculateComputedState_def Let_def truthy_def reached_def)

text \<open>
  C5, amended. For a running state whose end time (set, not 0) is at or before \<open>cur\<close>,
  the tick sets \<^verbatim>\<open>isRunning\<close> to false and \<^verbatim>\<open>lastUpdated\<close> to \<open>cur\<close> and leaves
  \<^verbatim>\<open>startTime\<close>, \<^verbatim>\<open>endTime\<close>, \<^verbatim>\<open>durationMs\<close> and \<^verbatim>\<open>pausedRemainingMs\<close> unchanged;
  \<^verbatim>\<open>isComplete\<close> becomes true exactly when the start time is set. Nothing is cleared:
  \<^verbatim>\<open>pausedRemainingMs\<close> is absent afterwards because it is absent in every running
  state reached with well-formed arguments and snapshots.
\<close>

theorem tick_expires:
  "(isRunning (timer s) \<and> endTime (timer s) = Some e \<and> e \<noteq> 0 \<and> e \<le> cur
      \<longrightarrow> \<not> isRunning (timer (updateCurrentTime s cur))
         \<and> startTime (timer (updateCurrentTime s cur)) = startTime (timer s)
         \<and> endTime (timer (updateCurrentTime s cur)) = endTime (timer s)
         \<and> durationMs (timer (updateCurrentTime s cur)) = durationMs (timer s)
         \<and> pausedRemainingMs (timer (updateCurrentTime s cur)) = pausedRemainingMs (timer s)
         \<and> lastUpdated (timer (updateCurrentTime s cur)) = cur
         \<and> isComplete (timer (updateCurrentTime s cur)) = truthy (startTime (timer s)))
   \<and> (reachable_wf s \<and> isRunning (timer s) \<longrightarrow> pausedRemainingMs (timer s) = Undefined)"
proof -
  have a: "isRunning (timer s) \<and> endTime (timer s) = Some e \<and> e \<noteq> 0 \<and> e \<le> cur
      \<longrightarrow> \<not> isRunning (timer (updateCurrentTime s cur))
         \<and> startTime (timer (updateCurrentTime s cur)) = startTime (timer s)
         \<and> endTime (timer (updateCurrentTime s cur)) = endTime (timer s)
         \<and> durationMs (timer (updateCurrentTime s cur)) = durationMs (timer s)
         \<and> pausedRemainingMs (timer (updateCurrentTime s cur)) = pausedRemainingMs (timer s)
         \<and> lastUpdated (timer (updateCurrentTime s cur)) = cur
         \<and> isComplete (timer (updateCurrentTime s cur)) = truthy (startTime (timer s))"
    by (simp add: updateCurrentTime_def calculateComputedState_def Let_def truthy_def
        reached_def)
  have b: "reachable_wf s \<and> isRunning (timer s) \<longrightarrow> pausedRemainingMs (timer s) = Undefined"
    using wf_invariant [of s] by (auto split: jsnum.splits)
  from a b show ?thesis by blast
qed

theorem tick_expires_witness:
  "reachable_wf (startTimer 1000000 (initialState 999000 999000))
   \<and> isRunning (timer (startTimer 1000000 (initialState 999000 999000)))
   \<and> endTime (timer (startTimer 1000000 (initialState 999000 999000))) = Some 1300000
   \<and> (1300000::int) \<noteq> 0 \<and> (1300000::int) \<le> 1300000
   \<and> \<not> isRunning (timer (updateCurrentTime (startTimer 1000000 (initialState 999000 999000)) 1300000))
   \<and> endTime (timer (updateCurrentTime (startTimer 1000000 (initialState 999000 999000)) 1300000)) = Some 1300000
   \<and> isComplete (timer (updateCurrentTime (startTimer 1000000 (initialState 999000 999000)) 1300000))
   \<and> pausedRemainingMs (timer (updateCurrentTime (startTimer 1000000 (initialState 999000 999000)) 1300000)) = Undefined"
proof -
  have r: "reachable_wf (startTimer 1000000 (initialState 999000 999000))"
    by (intro w_start w_init)
  from tick_expires [of "startTimer 1000000 (initialState 999000 999000)" 1300000 1300000] r
  show ?thesis
    by (simp add: startTimer_def initialState_def calculateComputedState_def Let_def
        truthy_def)
qed

section \<open>The paused remainder\<close>

text \<open>
  C8, as the claim states it, fails. Started at 1000000 for five minutes and paused one
  second before the end, the reachable state holds a \<^verbatim>\<open>pausedRemainingMs\<close> of 1000,
  below 60000; adding five minutes to it then gives 301000, above what remained at the
  pause.
\<close>

theorem paused_below_floor_counterexample:
  "reachable (pauseTimer 1299000 (startTimer 1000000 (initialState 999000 999000)))
   \<and> pausedRemainingMs (timer (pauseTimer 1299000 (startTimer 1000000 (initialState 999000 999000)))) = Num 1000
   \<and> \<not> (60000::int) \<le> 1000
   \<and> reachable (addTime 1400000 (pauseTimer 1299000 (startTimer 1000000 (initialState 999000 999000))) 5)
   \<and> pausedRemainingMs (timer (addTime 1400000 (pauseTimer 1299000 (startTimer 1000000 (initialState 999000 999000))) 5)) = Num 301000
   \<and> \<not> (301000::int) \<le> 1000"
proof -
  have r: "reachable (pauseTimer 1299000 (startTimer 1000000 (initialState 999000 999000)))"
    by (intro r_pause r_start r_init)
  have r2: "reachable (addTime 1400000 (pauseTimer 1299000 (startTimer 1000000 (initialState 999000 999000))) 5)"
    by (intro r_add r)
  from r r2 show ?thesis
    by (simp add: addTime_def pauseTimer_def startTimer_def initialState_def
        calculateComputedState_def Let_def truthy_def reached_def)
qed

lemma nonneg_invariant:
  assumes "reachable_nonneg s"
  shows "0 \<le> durationMs (timer s)
         \<and> (case pausedRemainingMs (timer s) of Num p \<Rightarrow> 0 \<le> p | _ \<Rightarrow> True)"
  using assms
proof (induction rule: reachable_nonneg.induct)
  case (n_init t0 t1)
  show ?case by (simp add: initialState_def)
next
  case (n_start s now)
  then show ?case by (simp add: startTimer_def Let_def calculateComputedState_def)
next
  case (n_pause s now)
  then show ?case
    by (simp add: pauseTimer_def Let_def calculateComputedState_def split: option.splits)
next
  case (n_reset s initialMinutes now)
  then show ?case by (simp add: resetTimer_def)
next
  case (n_add s minutes now)
  then show ?case
    by (simp add: addTime_def Let_def calculateComputedState_def split: jsnum.splits)
next
  case (n_remove s minutes now)
  then show ?case
    by (auto simp add: removeTime_def Let_def calculateComputedState_def le_max_iff_disj
        split: jsnum.splits)
next
  case (n_sync s timerState)
  then show ?case
    by (simp add: syncTimerState_def calculateComputedState_def nonneg_snapshot_def
        split: jsnum.splits)
next
  case (n_tick s cur)
  then show ?case
    by (simp add: updateCurrentTime_def Let_def calculateComputedState_def)
qed

text \<open>
  C8, amended. In every state reached from the initial state with minutes that are not
  negative and snapshots whose \<^verbatim>\<open>durationMs\<close> and \<^verbatim>\<open>pausedRemainingMs\<close> are not
  negative, a present \<^verbatim>\<open>pausedRemainingMs\<close> is at least 0. \<^verbatim>\<open>pauseTimer\<close> on a running
  timer with its end time set stores exactly the time remaining at that moment,
  \<open>max 0 (endTime - now)\<close>, with no floor. On a paused timer (not running, not complete)
  holding \<open>p\<close>, \<^verbatim>\<open>removeTime\<close> stores \<open>max 60000 (p - minutes * 60000)\<close>, and
  \<^verbatim>\<open>addTime\<close> stores \<open>p + minutes * 60000\<close>, which for positive minutes is more than
  \<open>p\<close>.
\<close>

theorem pausedRemainingMs_bounds:
  "(reachable_nonneg s \<and> pausedRemainingMs (timer s) = Num p \<longrightarrow> 0 \<le> p)
   \<and> (isRunning (timer s) \<and> endTime (timer s) = Some e \<and> e \<noteq> 0
        \<longrightarrow> pausedRemainingMs (timer (pauseTimer now s)) = Num (max 0 (e - now)))
   \<and> (\<not> isRunning (timer s) \<and> \<not> isComplete (timer s) \<and> pausedRemainingMs (timer s) = Num p
        \<longrightarrow> pausedRemainingMs (timer (removeTime now s minutes))
              = Num (max 60000 (p - minutes * 60000))
          \<and> pausedRemainingMs (timer (addTime now s minutes)) = Num (p + minutes * 60000)
          \<and> (0 < minutes \<longrightarrow> p < p + minutes * 60000))"
proof -
  have a: "reachable_nonneg s \<and> pausedRemainingMs (timer s) = Num p \<longrightarrow> 0 \<le> p"
    using nonneg_invariant [of s] by auto
  have b: "isRunning (timer s) \<and> endTime (timer s) = Some e \<and> e \<noteq> 0
        \<longrightarrow> pausedRemainingMs (timer (pauseTimer now s)) = Num (max 0 (e - now))"
    by (simp add: pauseTimer_def Let_def calculateComputedState_def truthy_def)
  have c: "\<not> isRunning (timer s) \<and> \<not> isComplete (timer s) \<and> pausedRemainingMs (timer s) = Num p
        \<longrightarrow> pausedRemainingMs (timer (removeTime now s minutes))
              = Num (max 60000 (p - minutes * 60000))"
    by (simp add: removeTime_def Let_def calculateComputedState_def mult.commute)
  have d: "\<not> isRunning (timer s) \<and> \<not> isComplete (timer s) \<and> pausedRemainingMs (timer s) = Num p
        \<longrightarrow> pausedRemainingMs (timer (addTime now s minutes)) = Num (p + minutes * 60000)"
    by (simp add: addTime_def Let_def calculateComputedState_def mult.commute)
  have f: "0 < minutes \<longrightarrow> p < p + minutes * 60000"
    by simp
  from a b c d f show ?thesis by blast
qed

theorem pausedRemainingMs_bounds_witness:
  "reachable_nonneg (pauseTimer 1299000 (startTimer 1000000 (initialState 999000 999000)))
   \<and> pausedRemainingMs (timer (pauseTimer 1299000 (startTimer 1000000 (initialState 999000 999000)))) = Num 1000
   \<and> (0::int) \<le> 1000
   \<and> isRunning (timer (startTimer 1000000 (initialState 999000 999000))) \<and> endTime (timer (startTimer 1000000 (initialState 999000 999000))) = Some 1300000
   \<and> \<not> isRunning (timer (pauseTimer 1299000 (startTimer 1000000 (initialState 999000 999000)))) \<and> \<not> isComplete (timer (pauseTimer 1299000 (startTimer 1000000 (initialState 999000 999000))))
   \<and> pausedRemainingMs (timer (removeTime 1400000 (pauseTimer 1299000 (startTimer 1000000 (initialState 999000 999000))) 1)) = Num 60000
   \<and> pausedRemainingMs (timer (addTime 1400000 (pauseTimer 1299000 (startTimer 1000000 (initialState 999000 999000))) 1)) = Num 61000
   \<and> (1000::int) < 61000"
proof -
  have r: "reachable_nonneg (pauseTimer 1299000 (startTimer 1000000 (initialState 999000 999000)))"
    by (intro n_pause n_start n_init)
  from pausedRemainingMs_bounds [of "pauseTimer 1299000 (startTimer 1000000 (initialState 999000 999000))" 1000 0 1400000 1]
    pausedRemainingMs_bounds [of "startTimer 1000000 (initialState 999000 999000)" 0 1300000 1299000 0] r
  show ?thesis
    by (simp add: pauseTimer_def startTimer_def initialState_def calculateComputedState_def
        Let_def truthy_def reached_def)
qed

end
